theory Spec2Isabelle
  imports Complex_Main "HOL-Library.Code_Target_Numeral"
begin

section \<open>JavaScript values, exceptions and HTTP messages\<close>

text \<open>
  The two API routes of the dashboard (\<open>src/pages/api/anki.ts\<close> and
  \<open>src/pages/api/goodreads.ts\<close>) are embedded as functions over explicit inputs:
  the environment variables, the answer of the network to the one request a route
  sends, and the few operations of the JavaScript engine whose result the routes use
  but do not compute themselves.

  A \<open>jsval\<close> is a JavaScript value of the kinds the routes meet: what
  \<open>response.json()\<close> yields, and the objects the routes build. A finite number is the
  rational that the double denotes: the routes do no arithmetic on numbers, and the
  rounding of a number literal happens inside \<open>response.json()\<close>, before the code of
  the route sees the value. The other numbers are the two infinities, which
  \<open>response.json()\<close> yields for a literal beyond the range of doubles (\<open>1e400\<close>), and
  \<open>NaN\<close>, which \<open>parseInt\<close> yields and \<open>response.json()\<close> never does. An object is
  the list of its own properties, in order. A \<open>string\<close> is the UTF-8 encoding of the
  JavaScript string.
\<close>

datatype jsval =
    JNull
  | JBool bool
  | JNum rat
  | JInfinity
  | JNegInfinity
  | JNaN
  | JStr string
  | JArr "jsval list"
  | JObj "(string \<times> jsval) list"

text \<open>
  A thrown value is either an \<open>Error\<close> instance, of which the routes read the
  \<open>message\<close>, or some other value (\<open>error instanceof Error\<close> is false).
\<close>

datatype thrown = ErrorObj string | NonError

text \<open>
  What the routes take from the platform: \<open>String(v)\<close> for the values whose text
  the ECMAScript number and object conversions decide, the \<open>TypeError\<close> raised by
  reading a property of \<open>null\<close>, and the \<open>Authorization\<close> header computed by the
  \<open>oauth-1.0a\<close> library from the consumer key, the consumer secret, the URL and the
  method (it draws a nonce and a timestamp, and runs inside the \<open>try\<close> block).
\<close>

record platform =
  String_conv :: "jsval \<Rightarrow> thrown + string"
  null_read :: "string \<Rightarrow> thrown"
  oauth_header :: "string \<Rightarrow> string \<Rightarrow> string \<Rightarrow> string \<Rightarrow> thrown + (string \<times> string) list"

text \<open>
  An outbound request, as the arguments of \<open>fetch\<close> give it. The body, when there is
  one, is the value that \<open>JSON.stringify\<close> writes.
\<close>

record request =
  url :: string
  http_method :: string
  req_headers :: "(string \<times> string) list"
  req_body :: "jsval option"

text \<open>
  The answer to a \<open>fetch\<close>: the promise rejects, or it resolves to a reply with a
  status and a body. A route reads the body once, \<open>anki.ts\<close> with \<open>json()\<close> (a
  \<open>jsval\<close>) and \<open>goodreads.ts\<close> with \<open>text()\<close> (a \<open>string\<close>); the read yields
  the value or throws.
\<close>

record 'b reply =
  reply_status :: nat
  read_body :: "thrown + 'b"

datatype 'b fetch_outcome = Rejected thrown | Resolved "'b reply"

text \<open>\<open>response.ok\<close> of the Fetch standard: the status is in the range 200 to 299.\<close>

definition ok :: "'b reply \<Rightarrow> bool" where
  "ok r = (200 \<le> reply_status r \<and> reply_status r \<le> 299)"

text \<open>
  The \<open>Response\<close> a route returns. The body is the document that \<open>JSON.stringify\<close>
  writes, with its properties in the order the source writes them.
\<close>

record Response =
  status :: nat
  headers :: "(string \<times> string) list"
  body :: jsval

text \<open>
  The effects of one invocation: the requests sent with \<open>fetch\<close>, in order, and the
  calls of \<open>console.error\<close> (its label and the value logged).
\<close>

record effects =
  sent :: "request list"
  console :: "(string \<times> thrown) list"

definition no_effects :: effects where
  "no_effects = \<lparr>sent = [], console = []\<rparr>"

definition fetch :: "(request \<Rightarrow> 'b fetch_outcome) \<Rightarrow> request \<Rightarrow> effects \<Rightarrow> 'b fetch_outcome \<times> effects" where
  "fetch net req fx = (net req, fx\<lparr>sent := sent fx @ [req]\<rparr>)"

definition console_error :: "string \<Rightarrow> thrown \<Rightarrow> effects \<Rightarrow> effects" where
  "console_error label e fx = fx\<lparr>console := console fx @ [(label, e)]\<rparr>"

subsection \<open>Truthiness, property reads, conversions\<close>

fun truthy :: "jsval \<Rightarrow> bool" where
  "truthy JNull = False"
| "truthy (JBool b) = b"
| "truthy (JNum q) = (q \<noteq> 0)"
| "truthy JInfinity = True"
| "truthy JNegInfinity = True"
| "truthy JNaN = False"
| "truthy (JStr s) = (s \<noteq> [])"
| "truthy (JArr xs) = True"
| "truthy (JObj kvs) = True"

text \<open>A property read yields \<open>undefined\<close> (\<open>None\<close>) when the property is absent.\<close>

definition truthy_opt :: "jsval option \<Rightarrow> bool" where
  "truthy_opt v = (case v of None \<Rightarrow> False | Some x \<Rightarrow> truthy x)"

text \<open>
  \<open>data.p\<close> for the property names the routes read (\<open>error\<close>, \<open>result\<close>), which no
  prototype defines: reading from \<open>null\<close> throws, an object gives its own property,
  every other value gives \<open>undefined\<close>.
\<close>

fun get_prop :: "platform \<Rightarrow> jsval \<Rightarrow> string \<Rightarrow> thrown + jsval option" where
  "get_prop pf JNull p = Inl (null_read pf p)"
| "get_prop pf (JObj kvs) p = Inr (map_of kvs p)"
| "get_prop pf (JBool b) p = Inr None"
| "get_prop pf (JNum q) p = Inr None"
| "get_prop pf JInfinity p = Inr None"
| "get_prop pf JNegInfinity p = Inr None"
| "get_prop pf JNaN p = Inr None"
| "get_prop pf (JStr s) p = Inr None"
| "get_prop pf (JArr xs) p = Inr None"

text \<open>
  \<open>String(v)\<close>: fixed texts for strings, booleans, \<open>null\<close> and the numbers that are
  not finite, the platform's otherwise.
\<close>

fun js_String :: "platform \<Rightarrow> jsval \<Rightarrow> thrown + string" where
  "js_String pf (JStr s) = Inr s"
| "js_String pf (JBool b) = Inr (if b then ''true'' else ''false'')"
| "js_String pf JNull = Inr ''null''"
| "js_String pf (JNum q) = String_conv pf (JNum q)"
| "js_String pf JInfinity = Inr ''Infinity''"
| "js_String pf JNegInfinity = Inr ''-Infinity''"
| "js_String pf JNaN = Inr ''NaN''"
| "js_String pf (JArr xs) = String_conv pf (JArr xs)"
| "js_String pf (JObj kvs) = String_conv pf (JObj kvs)"

text \<open>
  The value thrown by \<open>throw new Error(v)\<close>: the new error, whose message is
  \<open>String(v)\<close> (empty for \<open>undefined\<close>), or what that conversion throws.
\<close>

definition throw_new_Error :: "platform \<Rightarrow> jsval option \<Rightarrow> thrown" where
  "throw_new_Error pf v =
     (case v of
        None \<Rightarrow> ErrorObj []
      | Some x \<Rightarrow> (case js_String pf x of Inl e \<Rightarrow> e | Inr s \<Rightarrow> ErrorObj s))"

text \<open>\<open>error instanceof Error ? error.message : fallback\<close>.\<close>

definition message_of :: "thrown \<Rightarrow> string \<Rightarrow> string" where
  "message_of e fallback = (case e of ErrorObj m \<Rightarrow> m | NonError \<Rightarrow> fallback)"

text \<open>A property of the body of a \<open>Response\<close>, as a client reads it from the JSON text.\<close>

fun field :: "jsval \<Rightarrow> string \<Rightarrow> jsval option" where
  "field (JObj kvs) p = map_of kvs p"
| "field JNull p = None"
| "field (JBool b) p = None"
| "field (JNum q) p = None"
| "field JInfinity p = None"
| "field JNegInfinity p = None"
| "field JNaN p = None"
| "field (JStr s) p = None"
| "field (JArr xs) p = None"

subsection \<open>\<open>JSON.stringify\<close>\<close>

text \<open>
  The document that \<open>JSON.stringify\<close> writes, as the value a client reads from it: a
  number that is not finite is written as \<open>null\<close>, at any depth, and every other
  value is written as it is.
\<close>

fun JSON_written :: "jsval \<Rightarrow> jsval" where
  "JSON_written JNull = JNull"
| "JSON_written (JBool b) = JBool b"
| "JSON_written (JNum q) = JNum q"
| "JSON_written JInfinity = JNull"
| "JSON_written JNegInfinity = JNull"
| "JSON_written JNaN = JNull"
| "JSON_written (JStr s) = JStr s"
| "JSON_written (JArr xs) = JArr (map JSON_written xs)"
| "JSON_written (JObj kvs) = JObj (map (\<lambda>(k, v). (k, JSON_written v)) kvs)"

text \<open>The values that hold no number that is not finite: they are written as they are.\<close>

fun all_finite :: "jsval \<Rightarrow> bool" where
  "all_finite JNull = True"
| "all_finite (JBool b) = True"
| "all_finite (JNum q) = True"
| "all_finite JInfinity = False"
| "all_finite JNegInfinity = False"
| "all_finite JNaN = False"
| "all_finite (JStr s) = True"
| "all_finite (JArr xs) = list_all all_finite xs"
| "all_finite (JObj kvs) = list_all (\<lambda>(k, v). all_finite v) kvs"

section \<open>The review-count route (\<open>src/pages/api/anki.ts\<close>)\<close>

text \<open>
  An environment variable is \<open>undefined\<close> (\<open>None\<close>) or a string. The host is
  \<open>import.meta.env.ANKI_CONNECT_HOST || 'http://localhost:8765'\<close>.
\<close>

definition ankiHost :: "string option \<Rightarrow> string" where
  "ankiHost v =
     (case v of
        None \<Rightarrow> ''http://localhost:8765''
      | Some s \<Rightarrow> if s = [] then ''http://localhost:8765'' else s)"

definition anki_request :: "string \<Rightarrow> request" where
  "anki_request host =
     \<lparr>url = host,
      http_method = ''POST'',
      req_headers = [(''Content-Type'', ''application/json'')],
      req_body = Some (JObj [(''action'', JStr ''getNumCardsReviewedToday''), (''version'', JNum 6)])\<rparr>"

text \<open>\<open>data.result || 0\<close>\<close>

definition or_zero :: "jsval option \<Rightarrow> jsval" where
  "or_zero v = (case v of None \<Rightarrow> JNum 0 | Some x \<Rightarrow> if truthy x then x else JNum 0)"

definition anki_success :: "jsval \<Rightarrow> Response" where
  "anki_success today =
     \<lparr>status = 200,
      headers = [(''Content-Type'', ''application/json''),
                 (''Cache-Control'', ''public, s-maxage=300, stale-while-revalidate=600'')],
      body = JSON_written (JObj [(''today'', today), (''error'', JBool False)])\<rparr>"

definition anki_failure :: "thrown \<Rightarrow> Response" where
  "anki_failure e =
     \<lparr>status = 200,
      headers = [(''Content-Type'', ''application/json''),
                 (''Cache-Control'', ''public, s-maxage=60, stale-while-revalidate=300'')],
      body = JSON_written (JObj [(''today'', JNum 0), (''error'', JBool True),
                   (''message'', JStr (message_of e ''AnkiConnect offline''))])\<rparr>"

text \<open>The statements after \<open>await fetch\<close> in the \<open>try\<close> block: a response, or the value thrown.\<close>

definition anki_reshape :: "platform \<Rightarrow> jsval fetch_outcome \<Rightarrow> thrown + Response" where
  "anki_reshape pf outcome =
     (case outcome of
        Rejected e \<Rightarrow> Inl e
      | Resolved response \<Rightarrow>
          if \<not> ok response then Inl (ErrorObj ''AnkiConnect is offline or unreachable'')
          else (case read_body response of
                  Inl e \<Rightarrow> Inl e
                | Inr data \<Rightarrow>
                    (case get_prop pf data ''error'' of
                       Inl e \<Rightarrow> Inl e
                     | Inr err \<Rightarrow>
                         if truthy_opt err then Inl (throw_new_Error pf err)
                         else (case get_prop pf data ''result'' of
                                 Inl e \<Rightarrow> Inl e
                               | Inr res \<Rightarrow> Inr (anki_success (or_zero res))))))"

text \<open>The \<open>try\<close> block: one \<open>fetch\<close>, then the reshaping of its outcome.\<close>

definition anki_try :: "platform \<Rightarrow> (request \<Rightarrow> jsval fetch_outcome) \<Rightarrow> string \<Rightarrow> effects \<Rightarrow> (thrown + Response) \<times> effects" where
  "anki_try pf net host fx =
     (case fetch net (anki_request host) fx of
        (outcome, fx1) \<Rightarrow> (anki_reshape pf outcome, fx1))"

text \<open>The \<open>catch\<close> block.\<close>

definition anki_catch :: "thrown \<Rightarrow> effects \<Rightarrow> (thrown + Response) \<times> effects" where
  "anki_catch e fx = (Inr (anki_failure e), console_error ''AnkiConnect error:'' e fx)"

text \<open>
  The handler \<open>GET\<close> of \<open>anki.ts\<close>. Its result is the \<open>Response\<close> returned (\<open>Inr\<close>) or
  the value the handler itself throws (\<open>Inl\<close>), with the effects of the invocation.
\<close>

definition anki_GET :: "platform \<Rightarrow> string option \<Rightarrow> (request \<Rightarrow> jsval fetch_outcome) \<Rightarrow> (thrown + Response) \<times> effects" where
  "anki_GET pf ANKI_CONNECT_HOST net =
     (case anki_try pf net (ankiHost ANKI_CONNECT_HOST) no_effects of
        (Inr response, fx) \<Rightarrow> (Inr response, fx)
      | (Inl e, fx) \<Rightarrow> anki_catch e fx)"

section \<open>The reading-progress route (\<open>src/pages/api/goodreads.ts\<close>)\<close>

subsection \<open>The regular expressions and \<open>parseInt\<close>\<close>

text \<open>
  The text of the reply is a \<open>string\<close>: the UTF-8 encoding of the JavaScript
  string, so a character beyond ASCII is several \<open>char\<close>s. The three regular
  expressions of the route are literal ASCII texts around a lazy wildcard, so
  \<open>match\<close> is a search for the leftmost position where the opening text stands and the
  closing text follows; an ASCII text stands at a position of the JavaScript string
  exactly when its bytes stand at that position of the encoding.
\<close>

definition starts_with :: "string \<Rightarrow> string \<Rightarrow> bool" where
  "starts_with p s = (take (length p) s = p)"

text \<open>The text that follows the first occurrence of \<open>p\<close> in \<open>s\<close>.\<close>

fun after_first :: "string \<Rightarrow> string \<Rightarrow> string option" where
  "after_first p [] = (if p = [] then Some [] else None)"
| "after_first p (c # cs) =
     (if starts_with p (c # cs) then Some (drop (length p) (c # cs)) else after_first p cs)"

text \<open>The shortest prefix of \<open>s\<close> that ends with \<open>p\<close>: what \<open>[\s\S]*?\<close> and then \<open>p\<close> match.\<close>

fun through_first :: "string \<Rightarrow> string \<Rightarrow> string option" where
  "through_first p [] = (if p = [] then Some [] else None)"
| "through_first p (c # cs) =
     (if starts_with p (c # cs) then Some p else map_option ((#) c) (through_first p cs))"

definition shelf_open :: string where
  "shelf_open = ''<shelf name=\"currently-reading\"''"

text \<open>
  \<open>xmlText.match(/<shelf name="currently-reading"[\s\S]*?<\/review>/)\<close>: the matched
  text, or \<open>None\<close> for \<open>null\<close>. A match exists exactly when \<open></review>\<close> occurs
  after the first occurrence of the opening text, and the leftmost match starts there.
\<close>

definition currentlyReadingMatch :: "string \<Rightarrow> string option" where
  "currentlyReadingMatch xmlText =
     (case after_first shelf_open xmlText of
        None \<Rightarrow> None
      | Some rest \<Rightarrow> map_option ((@) shelf_open) (through_first ''</review>'' rest))"

text \<open>
  The characters that \<open>.\<close> does not match: line feed, carriage return, and the line
  and paragraph separators U+2028 and U+2029, three bytes each in UTF-8. The text
  stands at a line terminator when it starts with one of them.
\<close>

definition at_line_terminator :: "string \<Rightarrow> bool" where
  "at_line_terminator s =
     (starts_with [CHR 0x0A] s \<or> starts_with [CHR 0x0D] s
      \<or> starts_with [CHR 0xE2, CHR 0x80, CHR 0xA8] s
      \<or> starts_with [CHR 0xE2, CHR 0x80, CHR 0xA9] s)"

text \<open>\<open>(.*?)\<close> and then the literal \<open>suf\<close>, matched at the start of the text: the group.\<close>

fun lazy_dots :: "string \<Rightarrow> string \<Rightarrow> string option" where
  "lazy_dots suf [] = (if suf = [] then Some [] else None)"
| "lazy_dots suf (c # cs) =
     (if starts_with suf (c # cs) then Some []
      else if at_line_terminator (c # cs) then None
      else map_option ((#) c) (lazy_dots suf cs))"

text \<open>
  Group 1 of the leftmost match of \<open>/pre(.*?)suf/\<close> in the text, \<open>None\<close> when
  nothing matches.
\<close>

fun capture :: "string \<Rightarrow> string \<Rightarrow> string \<Rightarrow> string option" where
  "capture pre suf [] = (if pre = [] then lazy_dots suf [] else None)"
| "capture pre suf (c # cs) =
     (case (if starts_with pre (c # cs) then lazy_dots suf (drop (length pre) (c # cs)) else None) of
        Some g \<Rightarrow> Some g
      | None \<Rightarrow> capture pre suf cs)"

definition titleMatch :: "string \<Rightarrow> string option" where
  "titleMatch m = capture ''<title><![CDATA['' '']]></title>'' m"

definition pagesMatch :: "string \<Rightarrow> string option" where
  "pagesMatch m = capture ''<num_pages>'' ''</num_pages>'' m"

text \<open>
  A JavaScript number: a finite double (the rational it denotes), an infinity, or
  \<open>NaN\<close>.
\<close>

datatype number = Finite rat | PosInfinity | NegInfinity | NaN

fun JNumber :: "number \<Rightarrow> jsval" where
  "JNumber (Finite q) = JNum q"
| "JNumber PosInfinity = JInfinity"
| "JNumber NegInfinity = JNegInfinity"
| "JNumber NaN = JNaN"

text \<open>
  The white space that \<open>parseInt\<close> skips (\<open>WhiteSpace\<close> and \<open>LineTerminator\<close> of
  ECMAScript), in UTF-8: tab, line feed, vertical tab, form feed, carriage return and
  space; U+00A0; U+1680; U+2000 to U+200A, U+2028, U+2029 and U+202F; U+205F; U+3000;
  U+FEFF. \<open>whitespace_length\<close> is the number of bytes of the white space character at
  the start of the text, 0 when there is none.
\<close>

definition whitespace_length :: "string \<Rightarrow> nat" where
  "whitespace_length s =
     (case map (of_char :: char \<Rightarrow> nat) (take 3 s) of
        [] \<Rightarrow> 0
      | b0 # bs \<Rightarrow>
          if b0 \<in> set [0x09, 0x0A, 0x0B, 0x0C, 0x0D, 0x20] then 1
          else if take 1 bs = [0xA0] \<and> b0 = 0xC2 then 2
          else if b0 = 0xE1 \<and> bs = [0x9A, 0x80] then 3
          else if b0 = 0xE2 \<and> take 1 bs = [0x80] \<and> length bs = 2
                  \<and> (last bs \<in> set [0x80, 0x81, 0x82, 0x83, 0x84, 0x85, 0x86, 0x87, 0x88,
                                       0x89, 0x8A, 0xA8, 0xA9, 0xAF]) then 3
          else if b0 = 0xE2 \<and> bs = [0x81, 0x9F] then 3
          else if b0 = 0xE3 \<and> bs = [0x80, 0x80] then 3
          else if b0 = 0xEF \<and> bs = [0xBB, 0xBF] then 3
          else 0)"

text \<open>The text without its leading white space.\<close>

function trim_start :: "string \<Rightarrow> string" where
  "trim_start s =
     (if whitespace_length s = 0 then s else trim_start (drop (whitespace_length s) s))"
  by pat_completeness auto
termination
proof (relation "measure length")
  show "wf (measure length)" by simp
next
  fix s :: string
  assume "whitespace_length s \<noteq> 0"
  moreover from this have "s \<noteq> []"
    by (auto simp: whitespace_length_def)
  ultimately show "(drop (whitespace_length s) s, s) \<in> measure length"
    by simp
qed

declare trim_start.simps [simp del]

text \<open>
  The nearest integer that a double holds (a significand of 53 bits, ties to the even
  significand), for the value of a run of digits.
\<close>

fun bit_length :: "nat \<Rightarrow> nat" where
  "bit_length n = (if n = 0 then 0 else Suc (bit_length (n div 2)))"

declare bit_length.simps [simp del]

definition round_to_double :: "nat \<Rightarrow> nat" where
  "round_to_double n =
     (if n < 2 ^ 53 then n
      else (let e = bit_length n - 53;
                q = n div 2 ^ e;
                r = n mod 2 ^ e;
                h = 2 ^ (e - 1)
            in (if h < r \<or> (r = h \<and> odd q) then q + 1 else q) * 2 ^ e))"

text \<open>The number of that magnitude and sign: an infinity from \<open>2 ^ 1024\<close> on.\<close>

definition number_of_digits :: "bool \<Rightarrow> nat \<Rightarrow> number" where
  "number_of_digits negative n =
     (if 2 ^ 1024 \<le> round_to_double n
      then (if negative then NegInfinity else PosInfinity)
      else Finite (if negative then - of_nat (round_to_double n) else of_nat (round_to_double n)))"

text \<open>
  \<open>parseInt(s)\<close> with no radix: leading white space is skipped, a sign is read, a
  prefix \<open>0x\<close> selects base 16, and the longest run of digits is the value, rounded to
  a double; with no digit the result is \<open>NaN\<close>.
\<close>

definition digit_val :: "char \<Rightarrow> nat" where
  "digit_val c =
     (let n = (of_char c :: nat) in
      if 48 \<le> n \<and> n \<le> 57 then n - 48
      else if 97 \<le> n \<and> n \<le> 122 then n - 87
      else if 65 \<le> n \<and> n \<le> 90 then n - 55
      else 36)"

definition digits_value :: "nat \<Rightarrow> string \<Rightarrow> nat" where
  "digits_value R z = foldl (\<lambda>acc c. acc * R + digit_val c) 0 z"

definition parseInt :: "string \<Rightarrow> number" where
  "parseInt inputString =
     (let S = trim_start inputString;
          negative = starts_with ''-'' S;
          S1 = (if starts_with ''+'' S \<or> starts_with ''-'' S then tl S else S);
          hex = (starts_with ''0x'' S1 \<or> starts_with ''0X'' S1);
          R = (if hex then 16 else 10);
          S2 = (if hex then drop 2 S1 else S1);
          Z = takeWhile (\<lambda>c. digit_val c < R) S2
      in if Z = [] then NaN else number_of_digits negative (digits_value R Z))"

text \<open>The decimal text of a status code, as the template literal writes it.\<close>

fun dec :: "nat \<Rightarrow> string" where
  "dec n = (if n < 10 then [char_of (48 + n)] else dec (n div 10) @ [char_of (48 + n mod 10)])"

declare dec.simps [simp del]

subsection \<open>Books and payloads\<close>

text \<open>The interface \<open>Book\<close>.\<close>

record Book =
  title :: string
  progress :: number
  pages :: number
  current :: bool

text \<open>The book as a value, before \<open>JSON.stringify\<close> writes it.\<close>

definition book_json :: "Book \<Rightarrow> jsval" where
  "book_json b =
     JObj [(''title'', JStr (title b)),
           (''progress'', JNumber (progress b)),
           (''pages'', JNumber (pages b)),
           (''current'', JBool (current b))]"

definition cache_long :: "(string \<times> string) list" where
  "cache_long = [(''Content-Type'', ''application/json''),
                 (''Cache-Control'', ''public, s-maxage=600, stale-while-revalidate=1800'')]"

definition cache_short :: "(string \<times> string) list" where
  "cache_short = [(''Content-Type'', ''application/json''),
                  (''Cache-Control'', ''public, s-maxage=60, stale-while-revalidate=300'')]"

definition credentials_response :: Response where
  "credentials_response =
     \<lparr>status = 200, headers = cache_long,
      body = JSON_written (JObj [(''error'', JBool True),
                   (''message'', JStr ''Goodreads credentials not configured''),
                   (''book'', JNull)])\<rparr>"

definition no_book_response :: Response where
  "no_book_response =
     \<lparr>status = 200, headers = cache_long,
      body = JSON_written (JObj [(''error'', JBool False),
                   (''book'', JNull),
                   (''message'', JStr ''No currently reading book'')])\<rparr>"

definition book_response :: "Book \<Rightarrow> Response" where
  "book_response book =
     \<lparr>status = 200, headers = cache_long,
      body = JSON_written (JObj [(''error'', JBool False), (''book'', book_json book)])\<rparr>"

definition goodreads_failure :: "thrown \<Rightarrow> Response" where
  "goodreads_failure e =
     \<lparr>status = 200, headers = cache_short,
      body = JSON_written (JObj [(''error'', JBool True),
                   (''message'', JStr (message_of e ''Unknown error'')),
                   (''book'', JNull)])\<rparr>"

subsection \<open>The handler\<close>

text \<open>
  \<open>!v\<close> for an environment variable: \<open>undefined\<close> and the empty string are falsy.
\<close>

definition env_falsy :: "string option \<Rightarrow> bool" where
  "env_falsy v = (case v of None \<Rightarrow> True | Some s \<Rightarrow> s = [])"

text \<open>The book built from the matched shelf entry.\<close>

definition book_of_match :: "string \<Rightarrow> Book" where
  "book_of_match m =
     \<lparr>title = (case titleMatch m of Some t \<Rightarrow> t | None \<Rightarrow> ''Unknown Book''),
      progress = Finite 0,
      pages = (case pagesMatch m of Some p \<Rightarrow> parseInt p | None \<Rightarrow> Finite 0),
      current = True\<rparr>"

text \<open>The statements after \<open>await fetch\<close> in the \<open>try\<close> block.\<close>

definition goodreads_reshape :: "string fetch_outcome \<Rightarrow> thrown + Response" where
  "goodreads_reshape outcome =
     (case outcome of
        Rejected e \<Rightarrow> Inl e
      | Resolved response \<Rightarrow>
          if \<not> ok response
          then Inl (ErrorObj (''Goodreads API error: '' @ dec (reply_status response)))
          else (case read_body response of
                  Inl e \<Rightarrow> Inl e
                | Inr xmlText \<Rightarrow>
                    (case currentlyReadingMatch xmlText of
                       None \<Rightarrow> Inr no_book_response
                     | Some m \<Rightarrow> Inr (book_response (book_of_match m)))))"

definition goodreads_url :: "string \<Rightarrow> string" where
  "goodreads_url user_id = ''https://www.goodreads.com/review/list/'' @ user_id @ ''.xml''"

definition goodreads_request :: "string \<Rightarrow> (string \<times> string) list \<Rightarrow> request" where
  "goodreads_request user_id authHeader =
     \<lparr>url = goodreads_url user_id, http_method = ''GET'',
      req_headers = authHeader, req_body = None\<rparr>"

text \<open>The \<open>try\<close> block: the signing of the request, one \<open>fetch\<close>, the reshaping.\<close>

definition goodreads_try ::
  "platform \<Rightarrow> (request \<Rightarrow> string fetch_outcome) \<Rightarrow> string \<Rightarrow> string \<Rightarrow> string \<Rightarrow> effects
     \<Rightarrow> (thrown + Response) \<times> effects" where
  "goodreads_try pf net key secret user_id fx =
     (case oauth_header pf key secret (goodreads_url user_id) ''GET'' of
        Inl e \<Rightarrow> (Inl e, fx)
      | Inr authHeader \<Rightarrow>
          (case fetch net (goodreads_request user_id authHeader) fx of
             (outcome, fx1) \<Rightarrow> (goodreads_reshape outcome, fx1)))"

text \<open>The \<open>catch\<close> block.\<close>

definition goodreads_catch :: "thrown \<Rightarrow> effects \<Rightarrow> (thrown + Response) \<times> effects" where
  "goodreads_catch e fx = (Inr (goodreads_failure e), console_error ''Goodreads API error:'' e fx)"

text \<open>
  The handler \<open>GET\<close> of \<open>goodreads.ts\<close>, applied to the three environment variables
  and the network. Past the guard each variable is a non-empty string.
\<close>

definition goodreads_GET ::
  "platform \<Rightarrow> string option \<Rightarrow> string option \<Rightarrow> string option \<Rightarrow> (request \<Rightarrow> string fetch_outcome)
     \<Rightarrow> (thrown + Response) \<times> effects" where
  "goodreads_GET pf GOODREADS_KEY GOODREADS_SECRET GOODREADS_USER_ID net =
     (if env_falsy GOODREADS_KEY \<or> env_falsy GOODREADS_SECRET \<or> env_falsy GOODREADS_USER_ID
      then (Inr credentials_response, no_effects)
      else (case goodreads_try pf net (the GOODREADS_KEY) (the GOODREADS_SECRET)
                   (the GOODREADS_USER_ID) no_effects of
              (Inr response, fx) \<Rightarrow> (Inr response, fx)
            | (Inl e, fx) \<Rightarrow> goodreads_catch e fx))"

subsection \<open>The static fallback file\<close>

text \<open>
  The fallback file \<open>src/data/kobo.json\<close> as the build plan gives it, and the lookup of
  the book marked current that \<open>architecture.md\<close> describes
  (\<open>kobo.find(b => b.current)\<close>).
\<close>

definition kobo_json :: "Book list" where
  "kobo_json =
     [\<lparr>title = ''Example Book'', progress = Finite 0, pages = Finite 300, current = True\<rparr>]"

definition fallback_book :: "Book list \<Rightarrow> Book option" where
  "fallback_book kobo = find current kobo"

section \<open>Observations and sample inputs\<close>

text \<open>
  A platform for the examples: objects convert to \<open>[object Object]\<close>, and the OAuth
  library yields one \<open>Authorization\<close> header.
\<close>

definition sample_platform :: platform where
  "sample_platform =
     \<lparr>String_conv = (\<lambda>v. Inr ''[object Object]''),
      null_read = (\<lambda>p. ErrorObj (''Cannot read properties of null (reading '' @ [CHR 0x27] @ p @ [CHR 0x27] @ '')'')),
      oauth_header = (\<lambda>key secret u m. Inr [(''Authorization'', ''OAuth oauth_consumer_key='' @ key)])\<rparr>"

text \<open>Reading a header of the response a handler returned.\<close>

definition returned_header :: "(thrown + Response) \<times> effects \<Rightarrow> string \<Rightarrow> string option" where
  "returned_header res name = (case fst res of Inl e \<Rightarrow> None | Inr r \<Rightarrow> map_of (headers r) name)"

text \<open>Reading a property of the JSON body of the response a handler returned.\<close>

definition returned_field :: "(thrown + Response) \<times> effects \<Rightarrow> string \<Rightarrow> jsval option" where
  "returned_field res name = (case fst res of Inl e \<Rightarrow> None | Inr r \<Rightarrow> field (body r) name)"

text \<open>
  A call that fails before any reply is read: the promise rejects (a network error), or
  the status of the reply is not in the range of \<open>response.ok\<close>.
\<close>

definition call_failed :: "'b fetch_outcome \<Rightarrow> bool" where
  "call_failed outcome = (case outcome of Rejected e \<Rightarrow> True | Resolved r \<Rightarrow> \<not> ok r)"

text \<open>Networks: one that refuses the connection, one that answers every request alike.\<close>

definition offline :: "request \<Rightarrow> 'b fetch_outcome" where
  "offline req = Rejected (ErrorObj ''fetch failed'')"

definition answering :: "nat \<Rightarrow> 'b \<Rightarrow> request \<Rightarrow> 'b fetch_outcome" where
  "answering code b req = Resolved \<lparr>reply_status = code, read_body = Inr b\<rparr>"

text \<open>
  Replies of AnkiConnect: a count, a reported error, and what \<open>response.json()\<close>
  yields for the reply \<open>{"result": 1e400, "error": null}\<close>.
\<close>

definition anki_overflow :: jsval where
  "anki_overflow = JObj [(''result'', JInfinity), (''error'', JNull)]"

definition anki_count :: "rat \<Rightarrow> jsval" where
  "anki_count n = JObj [(''result'', JNum n), (''error'', JNull)]"

definition anki_error :: jsval where
  "anki_error = JObj [(''result'', JNull), (''error'', JStr ''collection is not available'')]"

text \<open>Replies of Goodreads: a shelf with a book being read, and a shelf without one.\<close>

definition shelf_reading :: string where
  "shelf_reading =
     ''<reviews><review><shelves><shelf name=\"currently-reading\" exclusive=\"true\"/></shelves>'' @
     ''<book><title><![CDATA[Dune]]></title><num_pages>412</num_pages></book></review></reviews>''"

definition shelf_read :: string where
  "shelf_read =
     ''<reviews><review><book><title><![CDATA[Dune]]></title><num_pages>412</num_pages></book>'' @
     ''<shelves><shelf name=\"read\" exclusive=\"true\"/></shelves></review></reviews>''"

section \<open>The handlers, path by path\<close>

text \<open>
  The handler of \<open>anki.ts\<close> sends its one request and answers with the response of
  the \<open>try\<close> block, or with the payload of the \<open>catch\<close> block.
\<close>

lemma anki_GET_eq:
  "anki_GET pf h net =
     (case anki_reshape pf (net (anki_request (ankiHost h))) of
        Inr r \<Rightarrow> (Inr r, \<lparr>sent = [anki_request (ankiHost h)], console = []\<rparr>)
      | Inl e \<Rightarrow> (Inr (anki_failure e),
                   \<lparr>sent = [anki_request (ankiHost h)], console = [(''AnkiConnect error:'', e)]\<rparr>))"
  by (simp add: anki_GET_def anki_try_def anki_catch_def fetch_def console_error_def no_effects_def
      split: sum.splits)

text \<open>
  The \<open>try\<close> block of \<open>anki.ts\<close> throws when the call fails, when the body cannot be
  read as JSON, when it is \<open>null\<close>, and when it reports an error.
\<close>

lemma anki_reshape_throws:
  assumes "call_failed outcome
    \<or> (\<exists>r e. outcome = Resolved r \<and> read_body r = Inl e)
    \<or> (\<exists>r. outcome = Resolved r \<and> read_body r = Inr JNull)
    \<or> (\<exists>r d v. outcome = Resolved r \<and> read_body r = Inr d \<and> field d ''error'' = Some v \<and> truthy v)"
  shows "\<exists>e. anki_reshape pf outcome = Inl e"
proof (cases outcome)
  case (Rejected e)
  then show ?thesis by (simp add: anki_reshape_def)
next
  case (Resolved r)
  show ?thesis
  proof (cases "ok r")
    case False
    with Resolved show ?thesis by (simp add: anki_reshape_def)
  next
    case True
    with Resolved assms consider
        (unreadable) e where "read_body r = Inl e"
      | (null) "read_body r = Inr JNull"
      | (reported) d v where "read_body r = Inr d" "field d ''error'' = Some v" "truthy v"
      by (auto simp: call_failed_def)
    then show ?thesis
    proof cases
      case unreadable
      with Resolved True show ?thesis by (simp add: anki_reshape_def)
    next
      case null
      with Resolved True show ?thesis by (simp add: anki_reshape_def)
    next
      case reported
      then obtain kvs where "d = JObj kvs" by (cases d) simp_all
      with reported Resolved True show ?thesis
        by (simp add: anki_reshape_def truthy_opt_def)
    qed
  qed
qed

text \<open>Otherwise it returns the count, or zero for a falsy or missing count.\<close>

lemma anki_reshape_returns:
  assumes "outcome = Resolved r" "ok r" "read_body r = Inr d" "d \<noteq> JNull"
    and "\<not> truthy_opt (field d ''error'')"
  shows "anki_reshape pf outcome = Inr (anki_success (or_zero (field d ''result'')))"
  using assms by (cases d) (simp_all add: anki_reshape_def)


text \<open>The handler of \<open>goodreads.ts\<close>: the guard on the credentials, then the \<open>try\<close> block.\<close>

lemma env_falsy_iff: "env_falsy v \<longleftrightarrow> v = None \<or> v = Some []"
  by (simp add: env_falsy_def split: option.splits)

lemma goodreads_GET_missing:
  assumes "env_falsy k \<or> env_falsy s \<or> env_falsy u"
  shows "goodreads_GET pf k s u net = (Inr credentials_response, no_effects)"
  using assms by (simp add: goodreads_GET_def)

lemma goodreads_GET_configured:
  assumes "key \<noteq> []" "secret \<noteq> []" "user \<noteq> []"
  shows "goodreads_GET pf (Some key) (Some secret) (Some user) net =
     (case oauth_header pf key secret (goodreads_url user) ''GET'' of
        Inl e \<Rightarrow> (Inr (goodreads_failure e),
                   \<lparr>sent = [], console = [(''Goodreads API error:'', e)]\<rparr>)
      | Inr hs \<Rightarrow>
          (case goodreads_reshape (net (goodreads_request user hs)) of
             Inr r \<Rightarrow> (Inr r, \<lparr>sent = [goodreads_request user hs], console = []\<rparr>)
           | Inl e \<Rightarrow> (Inr (goodreads_failure e),
                        \<lparr>sent = [goodreads_request user hs],
                         console = [(''Goodreads API error:'', e)]\<rparr>)))"
  using assms
  by (simp add: goodreads_GET_def goodreads_try_def goodreads_catch_def fetch_def
      console_error_def no_effects_def env_falsy_def split: sum.splits)

text \<open>Every response of either handler is one of the payloads the source builds.\<close>

lemma goodreads_reshape_shape:
  "(\<exists>e. goodreads_reshape outcome = Inl e)
    \<or> goodreads_reshape outcome = Inr no_book_response
    \<or> (\<exists>m. goodreads_reshape outcome = Inr (book_response (book_of_match m)))"
  by (auto simp: goodreads_reshape_def split: fetch_outcome.splits sum.splits option.splits)

lemma goodreads_GET_shape:
  "\<exists>resp fx. goodreads_GET pf k s u net = (Inr resp, fx) \<and> length (sent fx) \<le> 1 \<and>
     (resp = credentials_response \<or> resp = no_book_response
      \<or> (\<exists>m. resp = book_response (book_of_match m)) \<or> (\<exists>e. resp = goodreads_failure e))"
proof (cases "env_falsy k \<or> env_falsy s \<or> env_falsy u")
  case True
  then show ?thesis by (simp add: goodreads_GET_missing no_effects_def)
next
  case False
  then obtain key secret user where ks: "k = Some key" "s = Some secret" "u = Some user"
    and ne: "key \<noteq> []" "secret \<noteq> []" "user \<noteq> []"
    by (auto simp: env_falsy_iff)
  show ?thesis
  proof (cases "oauth_header pf key secret (goodreads_url user) ''GET''")
    case (Inl e)
    with ks ne show ?thesis by (auto simp: goodreads_GET_configured)
  next
    case (Inr hs)
    from goodreads_reshape_shape [of "net (goodreads_request user hs)"]
    show ?thesis using ks ne Inr by (auto simp: goodreads_GET_configured)
  qed
qed

lemma anki_GET_shape:
  "\<exists>resp fx. anki_GET pf h net = (Inr resp, fx) \<and> length (sent fx) = 1 \<and>
     ((\<exists>v. resp = anki_success v) \<or> (\<exists>e. resp = anki_failure e))"
proof (cases "anki_reshape pf (net (anki_request (ankiHost h)))")
  case (Inl e)
  then show ?thesis by (auto simp: anki_GET_eq)
next
  case (Inr r)
  then have "\<exists>v. r = anki_success v"
    by (auto simp: anki_reshape_def split: fetch_outcome.splits sum.splits if_splits)
  with Inr show ?thesis by (auto simp: anki_GET_eq)
qed

lemma payload_fields [simp]:
  "status (anki_success v) = 200"
  "status (anki_failure e) = 200"
  "field (body (anki_success v)) ''today'' = Some (JSON_written v)"
  "field (body (anki_success v)) ''error'' = Some (JBool False)"
  "field (body (anki_failure e)) ''today'' = Some (JNum 0)"
  "field (body (anki_failure e)) ''error'' = Some (JBool True)"
  "status credentials_response = 200"
  "status no_book_response = 200"
  "status (book_response b) = 200"
  "status (goodreads_failure e) = 200"
  "field (body credentials_response) ''error'' = Some (JBool True)"
  "field (body credentials_response) ''book'' = Some JNull"
  "field (body no_book_response) ''error'' = Some (JBool False)"
  "field (body no_book_response) ''book'' = Some JNull"
  "field (body (book_response b)) ''error'' = Some (JBool False)"
  "field (body (book_response b)) ''book'' = Some (JSON_written (book_json b))"
  "field (body (goodreads_failure e)) ''error'' = Some (JBool True)"
  "field (body (goodreads_failure e)) ''book'' = Some JNull"
  by (simp_all add: anki_success_def anki_failure_def credentials_response_def
      no_book_response_def book_response_def goodreads_failure_def)

section \<open>What \<open>JSON.stringify\<close> changes\<close>

text \<open>
  A value that holds no number that is not finite is written as it is, and a written
  document holds none.
\<close>

lemma JSON_written_finite: "all_finite v \<Longrightarrow> JSON_written v = v"
proof (induction v)
  case (JArr xs)
  then have "map JSON_written xs = xs"
    by (simp add: list_all_iff map_idI)
  then show ?case by simp
next
  case (JObj kvs)
  have "map (\<lambda>(k, v). (k, JSON_written v)) kvs = kvs"
  proof (rule map_idI)
    fix kv assume kv: "kv \<in> set kvs"
    obtain k v where [simp]: "kv = (k, v)" by (cases kv)
    from kv JObj.prems have "all_finite v" by (auto simp: list_all_iff)
    with kv JObj.IH [of kv v] have "JSON_written v = v" by simp
    then show "(case kv of (k, v) \<Rightarrow> (k, JSON_written v)) = kv" by simp
  qed
  then show ?case by simp
qed simp_all

lemma all_finite_JSON_written: "all_finite (JSON_written v)"
proof (induction v)
  case (JArr xs)
  then show ?case by (simp add: list_all_iff)
next
  case (JObj kvs)
  have "all_finite (JSON_written v)" if "(k, v) \<in> set kvs" for k v
    using JObj.IH [of "(k, v)" v] that by simp
  then show ?case by (auto simp: list_all_iff)
qed simp_all

section \<open>The search for the shelf entry\<close>

text \<open>
  The two searches of \<open>currentlyReadingMatch\<close> find what the regular expression
  finds: a match exists exactly when the text holds the opening of a currently-reading
  shelf and, somewhere after it, the closing tag of a review.
\<close>

lemma starts_with_iff: "starts_with p s \<longleftrightarrow> (\<exists>t. s = p @ t)"
proof
  assume "starts_with p s"
  then have "s = p @ drop (length p) s"
    by (metis append_take_drop_id starts_with_def)
  then show "\<exists>t. s = p @ t" ..
next
  assume "\<exists>t. s = p @ t"
  then show "starts_with p s" by (auto simp: starts_with_def)
qed

lemma after_first_Some: "after_first p s = Some r \<Longrightarrow> \<exists>a. s = a @ p @ r"
proof (induction s)
  case Nil
  then show ?case by (simp split: if_splits)
next
  case (Cons c cs)
  show ?case
  proof (cases "starts_with p (c # cs)")
    case True
    with Cons.prems have "r = drop (length p) (c # cs)" by simp
    moreover from True have "c # cs = p @ drop (length p) (c # cs)"
      by (metis append_take_drop_id starts_with_def)
    ultimately have "c # cs = [] @ p @ r" by simp
    then show ?thesis by blast
  next
    case False
    with Cons.prems have "after_first p cs = Some r" by simp
    then obtain a where "cs = a @ p @ r" using Cons.IH by blast
    then have "c # cs = (c # a) @ p @ r" by simp
    then show ?thesis by blast
  qed
qed

lemma after_first_occurrence: "\<exists>r x. after_first p (a @ p @ t) = Some r \<and> r = x @ t"
proof (induction a)
  case Nil
  show ?case
  proof (cases "p @ t")
    case Nil
    then show ?thesis by simp
  next
    case (Cons c cs)
    have "starts_with p (p @ t)" by (simp add: starts_with_def)
    with Cons have "after_first p (p @ t) = Some (drop (length p) (p @ t))"
      by simp
    then show ?thesis by simp
  qed
next
  case (Cons c a)
  show ?case
  proof (cases "starts_with p (c # a @ p @ t)")
    case True
    then have "after_first p ((c # a) @ p @ t) = Some (drop (length p) (c # a @ p @ t))"
      by simp
    moreover have "drop (length p) (c # a @ p @ t) = drop (length p) (c # a @ p) @ t"
      using drop_append [of "length p" "c # a @ p" t] by simp
    ultimately show ?thesis by simp
  next
    case False
    then have "after_first p ((c # a) @ p @ t) = after_first p (a @ p @ t)" by simp
    with Cons.IH show ?thesis by simp
  qed
qed

lemma through_first_Some: "through_first p s = Some m \<Longrightarrow> \<exists>a b. m = a @ p \<and> s = m @ b"
proof (induction s arbitrary: m)
  case Nil
  then show ?case by (simp split: if_splits)
next
  case (Cons c cs)
  show ?case
  proof (cases "starts_with p (c # cs)")
    case True
    with Cons.prems have "m = p" by simp
    moreover from True obtain t where "c # cs = p @ t" by (auto simp: starts_with_iff)
    ultimately have "m = [] @ p \<and> c # cs = m @ t" by simp
    then show ?thesis by blast
  next
    case False
    with Cons.prems obtain m' where m': "through_first p cs = Some m'" "m = c # m'"
      by auto
    from Cons.IH [OF m'(1)] obtain a b where "m' = a @ p" "cs = m' @ b" by blast
    with m'(2) have "m = (c # a) @ p \<and> c # cs = m @ b" by simp
    then show ?thesis by blast
  qed
qed

lemma through_first_occurrence: "through_first p (a @ p @ t) \<noteq> None"
proof (induction a)
  case Nil
  show ?case
  proof (cases "p @ t")
    case Nil
    then show ?thesis by simp
  next
    case (Cons c cs)
    have "starts_with p (p @ t)" by (simp add: starts_with_def)
    with Cons show ?thesis by simp
  qed
next
  case (Cons c a)
  then show ?case by simp
qed

lemma currentlyReadingMatch_None_iff:
  "currentlyReadingMatch xmlText = None \<longleftrightarrow>
     \<not> (\<exists>a b c. xmlText = a @ shelf_open @ b @ ''</review>'' @ c)"
proof
  assume none: "currentlyReadingMatch xmlText = None"
  show "\<not> (\<exists>a b c. xmlText = a @ shelf_open @ b @ ''</review>'' @ c)"
  proof
    assume "\<exists>a b c. xmlText = a @ shelf_open @ b @ ''</review>'' @ c"
    then obtain a b c where xml: "xmlText = a @ shelf_open @ b @ ''</review>'' @ c" by blast
    from after_first_occurrence [of shelf_open a "b @ ''</review>'' @ c"]
    obtain r x where r: "after_first shelf_open xmlText = Some r" "r = x @ b @ ''</review>'' @ c"
      using xml by auto
    from through_first_occurrence [of "''</review>''" "x @ b" c] r(2)
    have "through_first ''</review>'' r \<noteq> None" by simp
    with r(1) none show False by (simp add: currentlyReadingMatch_def)
  qed
next
  assume no: "\<not> (\<exists>a b c. xmlText = a @ shelf_open @ b @ ''</review>'' @ c)"
  show "currentlyReadingMatch xmlText = None"
  proof (rule ccontr)
    assume "currentlyReadingMatch xmlText \<noteq> None"
    then obtain r m where r: "after_first shelf_open xmlText = Some r"
      and m: "through_first ''</review>'' r = Some m"
      by (auto simp: currentlyReadingMatch_def split: option.splits)
    from after_first_Some [OF r] obtain a where "xmlText = a @ shelf_open @ r" by blast
    moreover from through_first_Some [OF m] obtain b c where "r = (b @ ''</review>'') @ c" by blast
    ultimately have "xmlText = a @ shelf_open @ b @ ''</review>'' @ c" by simp
    with no show False by blast
  qed
qed

section \<open>The sample inputs, evaluated\<close>

lemma sample_oauth:
  "oauth_header sample_platform key secret u m = Inr [(''Authorization'', ''OAuth oauth_consumer_key='' @ key)]"
  by (simp add: sample_platform_def)

lemma shelf_read_no_match: "currentlyReadingMatch shelf_read = None"
  by (simp add: currentlyReadingMatch_def shelf_read_def shelf_open_def starts_with_def)

lemma shelf_reading_match:
  "currentlyReadingMatch shelf_reading =
     Some (''<shelf name=\"currently-reading\" exclusive=\"true\"/></shelves>'' @
           ''<book><title><![CDATA[Dune]]></title><num_pages>412</num_pages></book></review>'')"
  by (simp add: currentlyReadingMatch_def shelf_reading_def shelf_open_def starts_with_def)

lemma trim_start_none: "whitespace_length s = 0 \<Longrightarrow> trim_start s = s"
  by (simp add: trim_start.simps)

lemma parseInt_412: "parseInt ''412'' = Finite 412"
proof -
  have "whitespace_length ''412'' = 0"
    by (simp add: whitespace_length_def)
  then have "trim_start ''412'' = ''412''"
    by (rule trim_start_none)
  then show ?thesis
    by (simp add: parseInt_def starts_with_def digit_val_def digits_value_def
        number_of_digits_def round_to_double_def Let_def)
qed

lemma shelf_reading_book:
  "map_option book_of_match (currentlyReadingMatch shelf_reading) =
     Some \<lparr>title = ''Dune'', progress = Finite 0, pages = Finite 412, current = True\<rparr>"
  by (simp add: shelf_reading_match book_of_match_def titleMatch_def pagesMatch_def
      starts_with_def at_line_terminator_def parseInt_412)

section \<open>The review-count route: claims\<close>

text \<open>
  Claim C1. Whenever the call to the AnkiConnect endpoint fails (the request is rejected
  by the network, the reply has a status that is not ok, or the reply carries an error
  field that is set), the route answers with HTTP status 200 and a body in which
  \<open>today\<close> is 0 and \<open>error\<close> is true. The same holds when the body of the reply
  cannot be read as JSON or is \<open>null\<close>.
\<close>

theorem anki_soft_failure:
  assumes "call_failed (net (anki_request (ankiHost h)))
    \<or> (\<exists>r d v. net (anki_request (ankiHost h)) = Resolved r \<and> read_body r = Inr d
          \<and> field d ''error'' = Some v \<and> truthy v)
    \<or> (\<exists>r e. net (anki_request (ankiHost h)) = Resolved r \<and> read_body r = Inl e)
    \<or> (\<exists>r. net (anki_request (ankiHost h)) = Resolved r \<and> read_body r = Inr JNull)"
  shows "\<exists>resp. fst (anki_GET pf h net) = Inr resp \<and> status resp = 200
    \<and> field (body resp) ''today'' = Some (JNum 0)
    \<and> field (body resp) ''error'' = Some (JBool True)"
proof -
  from assms have "\<exists>e. anki_reshape pf (net (anki_request (ankiHost h))) = Inl e"
    by (intro anki_reshape_throws) blast
  then obtain e where "anki_reshape pf (net (anki_request (ankiHost h))) = Inl e" ..
  then have "fst (anki_GET pf h net) = Inr (anki_failure e)"
    by (simp add: anki_GET_eq)
  then show ?thesis by simp
qed

theorem anki_soft_failure_witness:
  "(\<exists>r d v. answering 200 anki_error (anki_request (ankiHost None)) = Resolved r
        \<and> read_body r = Inr d \<and> field d ''error'' = Some v \<and> truthy v)
   \<and> (\<exists>resp. fst (anki_GET sample_platform None (answering 200 anki_error)) = Inr resp
        \<and> status resp = 200
        \<and> field (body resp) ''today'' = Some (JNum 0)
        \<and> field (body resp) ''error'' = Some (JBool True))"
proof -
  have reported: "\<exists>r d v. answering 200 anki_error (anki_request (ankiHost None)) = Resolved r
        \<and> read_body r = Inr d \<and> field d ''error'' = Some v \<and> truthy v"
    by (simp add: answering_def anki_error_def)
  with anki_soft_failure [of "answering 200 anki_error" None sample_platform]
  show ?thesis by blast
qed

text \<open>
  Claim C9, as stated, fails: for the reply \<open>{"result": 1e400, "error": null}\<close> with an
  ok status, \<open>response.json()\<close> yields the result \<open>Infinity\<close>, which is truthy, and
  \<open>JSON.stringify\<close> writes it as \<open>null\<close>. The body of the response has \<open>error\<close>
  false, and its \<open>today\<close> is \<open>null\<close>: neither the result field nor 0.
\<close>

theorem anki_success_counterexample:
  "ok \<lparr>reply_status = 200, read_body = Inr anki_overflow\<rparr>
   \<and> \<not> truthy_opt (field anki_overflow ''error'')
   \<and> truthy_opt (field anki_overflow ''result'')
   \<and> returned_field (anki_GET sample_platform None (answering 200 anki_overflow)) ''error''
       = Some (JBool False)
   \<and> returned_field (anki_GET sample_platform None (answering 200 anki_overflow)) ''today''
       = Some JNull
   \<and> returned_field (anki_GET sample_platform None (answering 200 anki_overflow)) ''today''
       \<noteq> field anki_overflow ''result''
   \<and> returned_field (anki_GET sample_platform None (answering 200 anki_overflow)) ''today''
       \<noteq> Some (JNum 0)"
  by (simp add: returned_field_def anki_GET_eq anki_reshape_def answering_def anki_overflow_def
      ok_def truthy_opt_def or_zero_def anki_success_def)

text \<open>
  Claim C9, amended. When the remote call succeeds (an ok status and a JSON reply other
  than \<open>null\<close> whose error field is absent or falsy), the body of the response has
  \<open>error\<close> false, and \<open>today\<close> is the result field of the reply as \<open>JSON.stringify\<close>
  writes it when that field is truthy, and 0 otherwise. A truthy result that holds no
  infinite number is written as it is, so \<open>today\<close> equals it; an infinite number, at
  any depth of the result, is written as \<open>null\<close>. In particular a result of 0 or a
  missing result gives the body \<open>{today: 0, error: false}\<close>, which agrees with the
  failure payload in \<open>today\<close> and differs from it in \<open>error\<close>.
\<close>

theorem anki_success_payload:
  assumes "net (anki_request (ankiHost h)) = Resolved r" and "ok r"
    and "read_body r = Inr d" and "d \<noteq> JNull"
    and "\<not> truthy_opt (field d ''error'')"
  shows "\<exists>resp. fst (anki_GET pf h net) = Inr resp \<and> status resp = 200
    \<and> field (body resp) ''error'' = Some (JBool False)
    \<and> field (body resp) ''today'' =
        Some (case field d ''result'' of
                None \<Rightarrow> JNum 0
              | Some v \<Rightarrow> if truthy v then JSON_written v else JNum 0)
    \<and> (\<forall>v. field d ''result'' = Some v \<and> truthy v \<and> all_finite v \<longrightarrow>
           field (body resp) ''today'' = Some v)
    \<and> (field d ''result'' = None \<or> field d ''result'' = Some (JNum 0) \<longrightarrow>
         body resp = JObj [(''today'', JNum 0), (''error'', JBool False)]
         \<and> (\<forall>e. field (body resp) ''today'' = field (body (anki_failure e)) ''today''
                \<and> field (body resp) ''error'' \<noteq> field (body (anki_failure e)) ''error''))"
proof -
  from assms have "anki_reshape pf (net (anki_request (ankiHost h)))
      = Inr (anki_success (or_zero (field d ''result'')))"
    by (simp add: anki_reshape_returns)
  then have "fst (anki_GET pf h net) = Inr (anki_success (or_zero (field d ''result'')))"
    by (simp add: anki_GET_eq)
  moreover have "body (anki_success (JNum 0)) = JObj [(''today'', JNum 0), (''error'', JBool False)]"
    by (simp add: anki_success_def)
  ultimately show ?thesis
    by (auto simp: or_zero_def JSON_written_finite split: option.splits)
qed

theorem anki_success_payload_witness:
  "(\<exists>resp. fst (anki_GET sample_platform None (answering 200 (anki_count 12))) = Inr resp
      \<and> field (body resp) ''error'' = Some (JBool False)
      \<and> field (body resp) ''today'' = Some (JNum 12))
   \<and> (\<exists>resp. fst (anki_GET sample_platform None (answering 200 (anki_count 0))) = Inr resp
      \<and> body resp = JObj [(''today'', JNum 0), (''error'', JBool False)])"
proof -
  let ?r12 = "\<lparr>reply_status = 200, read_body = Inr (anki_count 12)\<rparr>"
  let ?r0 = "\<lparr>reply_status = 200, read_body = Inr (anki_count 0)\<rparr>"
  have sent12: "answering 200 (anki_count 12) (anki_request (ankiHost None)) = Resolved ?r12"
    and sent0: "answering 200 (anki_count 0) (anki_request (ankiHost None)) = Resolved ?r0"
    by (simp_all add: answering_def)
  have ok: "ok ?r12" "ok ?r0"
    by (simp_all add: ok_def)
  have body: "read_body ?r12 = Inr (anki_count 12)" "read_body ?r0 = Inr (anki_count 0)"
    by simp_all
  have nonnull: "anki_count 12 \<noteq> JNull" "anki_count 0 \<noteq> JNull"
    by (simp_all add: anki_count_def)
  have quiet: "\<not> truthy_opt (field (anki_count 12) ''error'')"
    "\<not> truthy_opt (field (anki_count 0) ''error'')"
    by (simp_all add: anki_count_def truthy_opt_def)
  have res: "field (anki_count 12) ''result'' = Some (JNum 12)"
    "field (anki_count 0) ''result'' = Some (JNum 0)"
    by (simp_all add: anki_count_def)
  from anki_success_payload [of "answering 200 (anki_count 12)" None _ _ sample_platform,
      OF sent12 ok(1) body(1) nonnull(1) quiet(1)]
  have a: "\<exists>resp. fst (anki_GET sample_platform None (answering 200 (anki_count 12))) = Inr resp
      \<and> field (body resp) ''error'' = Some (JBool False)
      \<and> field (body resp) ''today'' = Some (JNum 12)"
    by (auto simp: res)
  from anki_success_payload [of "answering 200 (anki_count 0)" None _ _ sample_platform,
      OF sent0 ok(2) body(2) nonnull(2) quiet(2)]
  have b: "\<exists>resp. fst (anki_GET sample_platform None (answering 200 (anki_count 0))) = Inr resp
      \<and> body resp = JObj [(''today'', JNum 0), (''error'', JBool False)]"
    by (auto simp: res)
  from a b show ?thesis by blast
qed

text \<open>
  Claim C7. Every invocation of the anki route sends one request, to the configured
  host (\<open>http://localhost:8765\<close> when the variable is unset or empty): a POST with
  the header \<open>Content-Type: application/json\<close> whose body is the JSON object
  \<open>{action: "getNumCardsReviewedToday", version: 6}\<close>.
\<close>

theorem anki_request_is_fixed:
  "sent (snd (anki_GET pf h net)) =
     [\<lparr>url = (case h of
                None \<Rightarrow> ''http://localhost:8765''
              | Some host \<Rightarrow> if host = [] then ''http://localhost:8765'' else host),
       http_method = ''POST'',
       req_headers = [(''Content-Type'', ''application/json'')],
       req_body = Some (JObj [(''action'', JStr ''getNumCardsReviewedToday''),
                              (''version'', JNum 6)])\<rparr>]"
  by (simp add: anki_GET_eq anki_request_def ankiHost_def split: sum.splits)

theorem anki_request_is_fixed_witness:
  "sent (snd (anki_GET sample_platform (Some ''http://127.0.0.1:8765'') offline)) =
     [\<lparr>url = ''http://127.0.0.1:8765'',
       http_method = ''POST'',
       req_headers = [(''Content-Type'', ''application/json'')],
       req_body = Some (JObj [(''action'', JStr ''getNumCardsReviewedToday''),
                              (''version'', JNum 6)])\<rparr>]"
  using anki_request_is_fixed [of sample_platform "Some ''http://127.0.0.1:8765''" offline]
  by simp

section \<open>The reading-progress route: claims\<close>

text \<open>
  Claim C10. When any of the three credentials is missing (unset or empty), the
  goodreads route answers with status 200 and the payload
  \<open>{error: true, message: "Goodreads credentials not configured", book: null}\<close>,
  and no request has been sent.
\<close>

theorem goodreads_missing_credentials:
  assumes "k = None \<or> k = Some [] \<or> s = None \<or> s = Some [] \<or> u = None \<or> u = Some []"
  shows "\<exists>resp. goodreads_GET pf k s u net = (Inr resp, \<lparr>sent = [], console = []\<rparr>)
    \<and> status resp = 200
    \<and> body resp = JObj [(''error'', JBool True),
                         (''message'', JStr ''Goodreads credentials not configured''),
                         (''book'', JNull)]"
proof -
  from assms have "env_falsy k \<or> env_falsy s \<or> env_falsy u"
    by (auto simp: env_falsy_iff)
  then have "goodreads_GET pf k s u net = (Inr credentials_response, no_effects)"
    by (rule goodreads_GET_missing)
  then show ?thesis
    by (simp add: no_effects_def credentials_response_def)
qed

theorem goodreads_missing_credentials_witness:
  "\<exists>resp. goodreads_GET sample_platform (Some ''key'') (Some '''') (Some ''42'')
            (answering 200 shelf_reading) = (Inr resp, \<lparr>sent = [], console = []\<rparr>)
    \<and> status resp = 200
    \<and> body resp = JObj [(''error'', JBool True),
                         (''message'', JStr ''Goodreads credentials not configured''),
                         (''book'', JNull)]"
  using goodreads_missing_credentials
    [of "Some ''key''" "Some ''''" "Some ''42''" sample_platform "answering 200 shelf_reading"]
  by simp

text \<open>
  Claim C3. When the remote call succeeds (an ok status, a text that can be read) and
  the text holds no currently-reading shelf entry, the route answers with status 200 and
  the explicit result \<open>{error: false, book: null}\<close> with the message
  \<open>No currently reading book\<close>; this body differs from the body for missing
  credentials and from every body of the \<open>catch\<close> block, which have \<open>error\<close> true.
\<close>

theorem goodreads_no_active_book:
  assumes "key \<noteq> []" and "secret \<noteq> []" and "user \<noteq> []"
    and "oauth_header pf key secret (goodreads_url user) ''GET'' = Inr hs"
    and "net (goodreads_request user hs) = Resolved r" and "ok r"
    and "read_body r = Inr xmlText"
    and "\<not> (\<exists>a b c. xmlText = a @ shelf_open @ b @ ''</review>'' @ c)"
  shows "\<exists>resp. fst (goodreads_GET pf (Some key) (Some secret) (Some user) net) = Inr resp
    \<and> status resp = 200
    \<and> field (body resp) ''error'' = Some (JBool False)
    \<and> field (body resp) ''book'' = Some JNull
    \<and> field (body resp) ''message'' = Some (JStr ''No currently reading book'')
    \<and> body resp \<noteq> body credentials_response
    \<and> (\<forall>e. body resp \<noteq> body (goodreads_failure e))"
proof -
  from assms(8) have "currentlyReadingMatch xmlText = None"
    by (simp add: currentlyReadingMatch_None_iff)
  with assms(5-7) have "goodreads_reshape (net (goodreads_request user hs)) = Inr no_book_response"
    by (simp add: goodreads_reshape_def)
  with assms(1-4)
  have "fst (goodreads_GET pf (Some key) (Some secret) (Some user) net) = Inr no_book_response"
    by (simp add: goodreads_GET_configured)
  moreover have "field (body no_book_response) ''message'' = Some (JStr ''No currently reading book'')"
    "body no_book_response \<noteq> body credentials_response"
    "\<forall>e. body no_book_response \<noteq> body (goodreads_failure e)"
    by (simp_all add: no_book_response_def credentials_response_def goodreads_failure_def)
  ultimately show ?thesis by simp
qed

theorem goodreads_no_active_book_witness:
  "\<not> (\<exists>a b c. shelf_read = a @ shelf_open @ b @ ''</review>'' @ c)
   \<and> (\<exists>resp. fst (goodreads_GET sample_platform (Some ''key'') (Some ''secret'') (Some ''42'')
                    (answering 200 shelf_read)) = Inr resp
        \<and> status resp = 200
        \<and> field (body resp) ''error'' = Some (JBool False)
        \<and> field (body resp) ''book'' = Some JNull)"
proof -
  let ?hs = "[(''Authorization'', ''OAuth oauth_consumer_key=key'')]"
  let ?r = "\<lparr>reply_status = 200, read_body = Inr shelf_read\<rparr>"
  have absent: "\<not> (\<exists>a b c. shelf_read = a @ shelf_open @ b @ ''</review>'' @ c)"
    using shelf_read_no_match by (simp add: currentlyReadingMatch_None_iff)
  have signed: "oauth_header sample_platform ''key'' ''secret'' (goodreads_url ''42'') ''GET'' = Inr ?hs"
    by (simp add: sample_oauth)
  have answer: "answering 200 shelf_read (goodreads_request ''42'' ?hs) = Resolved ?r"
    by (simp add: answering_def)
  have "ok ?r" and "read_body ?r = Inr shelf_read"
    by (simp_all add: ok_def)
  with goodreads_no_active_book
    [of "''key''" "''secret''" "''42''" sample_platform ?hs "answering 200 shelf_read" ?r shelf_read]
    signed answer absent
  show ?thesis by auto
qed

text \<open>
  Claim C4. Whenever the goodreads route returns a book (a \<open>book\<close> other than
  \<open>null\<close>, which is always built from the reply of the remote API), the
  \<open>progress\<close> of the book is 0.
\<close>

theorem goodreads_progress_is_zero:
  assumes "fst (goodreads_GET pf k s u net) = Inr resp"
    and "field (body resp) ''book'' = Some b" and "b \<noteq> JNull"
  shows "field b ''progress'' = Some (JNum 0)"
proof -
  from goodreads_GET_shape [of pf k s u net] assms(1)
  consider "resp = credentials_response" | "resp = no_book_response"
    | m where "resp = book_response (book_of_match m)" | e where "resp = goodreads_failure e"
    by auto
  then show ?thesis
  proof cases
    case 3
    with assms(2) have "b = JSON_written (book_json (book_of_match m))" by simp
    then show ?thesis by (simp add: book_json_def book_of_match_def)
  qed (use assms(2,3) in simp_all)
qed

theorem goodreads_progress_is_zero_witness:
  "\<exists>resp b. fst (goodreads_GET sample_platform (Some ''key'') (Some ''secret'') (Some ''42'')
                   (answering 200 shelf_reading)) = Inr resp
     \<and> field (body resp) ''book'' = Some b \<and> b \<noteq> JNull
     \<and> field b ''title'' = Some (JStr ''Dune'')
     \<and> field b ''progress'' = Some (JNum 0)"
proof -
  let ?book = "\<lparr>title = ''Dune'', progress = Finite 0, pages = Finite 412, current = True\<rparr>"
  let ?b = "JSON_written (book_json ?book)"
  have run: "fst (goodreads_GET sample_platform (Some ''key'') (Some ''secret'') (Some ''42'')
                   (answering 200 shelf_reading)) = Inr (book_response ?book)"
    using shelf_reading_book
    by (auto simp: goodreads_GET_configured sample_oauth goodreads_reshape_def answering_def ok_def)
  have book: "field (body (book_response ?book)) ''book'' = Some ?b" by simp
  have nonnull: "?b \<noteq> JNull" by (simp add: book_json_def)
  have "field ?b ''title'' = Some (JStr ''Dune'')" by (simp add: book_json_def)
  with goodreads_progress_is_zero [OF run book nonnull] run book nonnull
  show ?thesis by blast
qed

text \<open>
  Claim C2, as stated, fails on the route: when the remote lookup fails, the \<open>book\<close>
  of the result is \<open>null\<close>, not the record of the fallback file whose \<open>current\<close>
  is true. The inputs are a network that refuses the connection, and no credentials.
\<close>

theorem goodreads_failure_counterexample:
  "returned_field (goodreads_GET sample_platform (Some ''key'') (Some ''secret'') (Some ''42'')
       offline) ''book'' = Some JNull
   \<and> returned_field (goodreads_GET sample_platform None None None offline) ''book'' = Some JNull
   \<and> map_option book_json (fallback_book kobo_json) =
       Some (JObj [(''title'', JStr ''Example Book''), (''progress'', JNum 0),
                   (''pages'', JNum 300), (''current'', JBool True)])
   \<and> returned_field (goodreads_GET sample_platform (Some ''key'') (Some ''secret'') (Some ''42'')
       offline) ''book'' \<noteq> map_option book_json (fallback_book kobo_json)"
  by (simp add: returned_field_def goodreads_GET_configured goodreads_GET_missing env_falsy_def
      sample_oauth goodreads_reshape_def offline_def fallback_book_def kobo_json_def book_json_def)

text \<open>
  Claim C2, amended. When the remote lookup fails (a credential is missing, the request
  is rejected by the network, or the status of the reply is not ok), the route answers
  with status 200 and a body in which \<open>error\<close> is true, \<open>book\<close> is \<open>null\<close> and
  \<open>message\<close> is a text: the route returns no fallback record, and its \<open>error\<close>
  flag tells the caller that the remote source did not answer.
\<close>

theorem goodreads_failure_payload:
  assumes "env_falsy k \<or> env_falsy s \<or> env_falsy u
    \<or> (\<exists>key secret user hs. k = Some key \<and> s = Some secret \<and> u = Some user
          \<and> oauth_header pf key secret (goodreads_url user) ''GET'' = Inr hs
          \<and> call_failed (net (goodreads_request user hs)))"
  shows "\<exists>resp m. fst (goodreads_GET pf k s u net) = Inr resp \<and> status resp = 200
    \<and> field (body resp) ''error'' = Some (JBool True)
    \<and> field (body resp) ''book'' = Some JNull
    \<and> field (body resp) ''message'' = Some (JStr m)"
proof (cases "env_falsy k \<or> env_falsy s \<or> env_falsy u")
  case True
  then have "fst (goodreads_GET pf k s u net) = Inr credentials_response"
    by (simp add: goodreads_GET_missing)
  moreover have "field (body credentials_response) ''message''
      = Some (JStr ''Goodreads credentials not configured'')"
    by (simp add: credentials_response_def)
  ultimately show ?thesis by simp
next
  case False
  with assms obtain key secret user hs where ks: "k = Some key" "s = Some secret" "u = Some user"
    and signed: "oauth_header pf key secret (goodreads_url user) ''GET'' = Inr hs"
    and failed: "call_failed (net (goodreads_request user hs))"
    by blast
  from False ks have ne: "key \<noteq> []" "secret \<noteq> []" "user \<noteq> []"
    by (simp_all add: env_falsy_def)
  from failed obtain e where "goodreads_reshape (net (goodreads_request user hs)) = Inl e"
    by (auto simp: call_failed_def goodreads_reshape_def split: fetch_outcome.splits)
  with ks ne signed have "fst (goodreads_GET pf k s u net) = Inr (goodreads_failure e)"
    by (simp add: goodreads_GET_configured)
  moreover have "field (body (goodreads_failure e)) ''message''
      = Some (JStr (message_of e ''Unknown error''))"
    by (simp add: goodreads_failure_def)
  ultimately show ?thesis by simp
qed

theorem goodreads_failure_payload_witness:
  "call_failed (answering 503 [] (goodreads_request ''42''
       [(''Authorization'', ''OAuth oauth_consumer_key=key'')]) :: string fetch_outcome)
   \<and> (\<exists>resp m. fst (goodreads_GET sample_platform (Some ''key'') (Some ''secret'') (Some ''42'')
                      (answering 503 [])) = Inr resp
        \<and> status resp = 200
        \<and> field (body resp) ''error'' = Some (JBool True)
        \<and> field (body resp) ''book'' = Some JNull
        \<and> field (body resp) ''message'' = Some (JStr m))"
proof -
  let ?hs = "[(''Authorization'', ''OAuth oauth_consumer_key=key'')]"
  have failed: "call_failed (answering 503 [] (goodreads_request ''42'' ?hs) :: string fetch_outcome)"
    by (simp add: call_failed_def answering_def ok_def)
  have signed: "oauth_header sample_platform ''key'' ''secret'' (goodreads_url ''42'') ''GET'' = Inr ?hs"
    by (simp add: sample_oauth)
  from failed signed
  have "env_falsy (Some ''key'') \<or> env_falsy (Some ''secret'') \<or> env_falsy (Some ''42'')
    \<or> (\<exists>key secret user hs. Some ''key'' = Some key \<and> Some ''secret'' = Some secret
          \<and> Some ''42'' = Some user
          \<and> oauth_header sample_platform key secret (goodreads_url user) ''GET'' = Inr hs
          \<and> call_failed (answering 503 [] (goodreads_request user hs) :: string fetch_outcome))"
    by blast
  from goodreads_failure_payload [OF this] failed show ?thesis by blast
qed

section \<open>Both routes\<close>

text \<open>
  Claim C5. For every outcome of the remote call, each of the two routes returns a
  response and throws nothing; the status of the response is 200 and its body carries
  a boolean \<open>error\<close> flag.
\<close>

theorem routes_never_propagate_errors:
  "(\<exists>resp b. fst (anki_GET pf h net) = Inr resp \<and> status resp = 200
       \<and> field (body resp) ''error'' = Some (JBool b))
   \<and> (\<exists>resp b. fst (goodreads_GET pf k s u gnet) = Inr resp \<and> status resp = 200
       \<and> field (body resp) ''error'' = Some (JBool b))"
proof
  from anki_GET_shape [of pf h net]
  show "\<exists>resp b. fst (anki_GET pf h net) = Inr resp \<and> status resp = 200
       \<and> field (body resp) ''error'' = Some (JBool b)"
    by auto
next
  from goodreads_GET_shape [of pf k s u gnet]
  show "\<exists>resp b. fst (goodreads_GET pf k s u gnet) = Inr resp \<and> status resp = 200
       \<and> field (body resp) ''error'' = Some (JBool b)"
    by auto
qed

theorem routes_never_propagate_errors_witness:
  "(\<exists>resp b. fst (anki_GET sample_platform None (answering 500 JNull)) = Inr resp
       \<and> status resp = 200 \<and> field (body resp) ''error'' = Some (JBool b))
   \<and> (\<exists>resp b. fst (goodreads_GET sample_platform (Some ''key'') (Some ''secret'') (Some ''42'')
                      offline) = Inr resp
       \<and> status resp = 200 \<and> field (body resp) ''error'' = Some (JBool b))"
  by (rule routes_never_propagate_errors)

text \<open>
  Claim C8. Neither route retries: an invocation of the anki route or of the goodreads
  route sends at most one request, whatever the outcome of that request.
\<close>

theorem routes_send_at_most_one_request:
  "length (sent (snd (anki_GET pf h net))) \<le> 1
   \<and> length (sent (snd (goodreads_GET pf k s u gnet))) \<le> 1"
proof
  from anki_GET_shape [of pf h net]
  show "length (sent (snd (anki_GET pf h net))) \<le> 1" by auto
next
  from goodreads_GET_shape [of pf k s u gnet]
  show "length (sent (snd (goodreads_GET pf k s u gnet))) \<le> 1" by auto
qed

theorem routes_send_at_most_one_request_witness:
  "length (sent (snd (anki_GET sample_platform None offline))) \<le> 1
   \<and> length (sent (snd (goodreads_GET sample_platform (Some ''key'') (Some ''secret'')
                          (Some ''42'') (answering 503 [])))) \<le> 1"
  by (rule routes_send_at_most_one_request)

text \<open>
  Claim C6, as stated, fails: the \<open>Cache-Control\<close> value of a response that the
  \<open>catch\<close> block builds differs from the value of a response of the \<open>try\<close> block, on
  both routes.
\<close>

theorem cache_control_counterexample:
  "returned_header (anki_GET sample_platform None (answering 200 (anki_count 12))) ''Cache-Control''
     = Some ''public, s-maxage=300, stale-while-revalidate=600''
   \<and> returned_header (anki_GET sample_platform None offline) ''Cache-Control''
     = Some ''public, s-maxage=60, stale-while-revalidate=300''
   \<and> returned_header (anki_GET sample_platform None (answering 200 (anki_count 12))) ''Cache-Control''
     \<noteq> returned_header (anki_GET sample_platform None offline) ''Cache-Control''
   \<and> returned_header (goodreads_GET sample_platform (Some ''key'') (Some ''secret'') (Some ''42'')
        (answering 200 shelf_read)) ''Cache-Control''
     \<noteq> returned_header (goodreads_GET sample_platform (Some ''key'') (Some ''secret'') (Some ''42'')
        offline) ''Cache-Control''"
  using shelf_read_no_match
  by (simp add: returned_header_def anki_GET_eq anki_reshape_def answering_def offline_def
      anki_count_def ok_def truthy_opt_def anki_success_def anki_failure_def
      goodreads_GET_configured sample_oauth goodreads_reshape_def no_book_response_def
      goodreads_failure_def cache_long_def cache_short_def)

text \<open>
  Claim C6, amended. Every response carries one of two static \<open>Cache-Control\<close>
  values per route, chosen by the path alone: the short-lived
  \<open>public, s-maxage=60, stale-while-revalidate=300\<close> when the \<open>catch\<close> block answers
  (the only path that calls \<open>console.error\<close>), and otherwise
  \<open>public, s-maxage=300, stale-while-revalidate=600\<close> on the anki route and
  \<open>public, s-maxage=600, stale-while-revalidate=1800\<close> on the goodreads route, the
  payload for missing credentials included.
\<close>

theorem cache_control_by_path:
  "returned_header (anki_GET pf h net) ''Cache-Control'' =
     Some (if console (snd (anki_GET pf h net)) = []
           then ''public, s-maxage=300, stale-while-revalidate=600''
           else ''public, s-maxage=60, stale-while-revalidate=300'')
   \<and> returned_header (goodreads_GET pf k s u gnet) ''Cache-Control'' =
     Some (if console (snd (goodreads_GET pf k s u gnet)) = []
           then ''public, s-maxage=600, stale-while-revalidate=1800''
           else ''public, s-maxage=60, stale-while-revalidate=300'')"
proof
  show "returned_header (anki_GET pf h net) ''Cache-Control'' =
     Some (if console (snd (anki_GET pf h net)) = []
           then ''public, s-maxage=300, stale-while-revalidate=600''
           else ''public, s-maxage=60, stale-while-revalidate=300'')"
    by (auto simp: returned_header_def anki_GET_eq anki_reshape_def anki_success_def
        anki_failure_def split: sum.splits fetch_outcome.splits if_splits)
next
  show "returned_header (goodreads_GET pf k s u gnet) ''Cache-Control'' =
     Some (if console (snd (goodreads_GET pf k s u gnet)) = []
           then ''public, s-maxage=600, stale-while-revalidate=1800''
           else ''public, s-maxage=60, stale-while-revalidate=300'')"
  proof (cases "env_falsy k \<or> env_falsy s \<or> env_falsy u")
    case True
    then show ?thesis
      by (simp add: goodreads_GET_missing returned_header_def credentials_response_def
          cache_long_def no_effects_def)
  next
    case False
    then obtain key secret user where ks: "k = Some key" "s = Some secret" "u = Some user"
      and ne: "key \<noteq> []" "secret \<noteq> []" "user \<noteq> []"
      by (auto simp: env_falsy_iff)
    show ?thesis
    proof (cases "oauth_header pf key secret (goodreads_url user) ''GET''")
      case (Inl e)
      with ks ne show ?thesis
        by (simp add: goodreads_GET_configured returned_header_def goodreads_failure_def
            cache_short_def)
    next
      case (Inr hs)
      from goodreads_reshape_shape [of "gnet (goodreads_request user hs)"]
      show ?thesis using ks ne Inr
        by (auto simp: goodreads_GET_configured returned_header_def goodreads_failure_def
            no_book_response_def book_response_def cache_short_def cache_long_def)
    qed
  qed
qed

theorem cache_control_by_path_witness:
  "returned_header (anki_GET sample_platform None offline) ''Cache-Control'' =
     Some ''public, s-maxage=60, stale-while-revalidate=300''
   \<and> returned_header (goodreads_GET sample_platform None None None offline) ''Cache-Control'' =
     Some ''public, s-maxage=600, stale-while-revalidate=1800''"
proof -
  have "console (snd (anki_GET sample_platform None offline)) \<noteq> []"
    by (simp add: anki_GET_eq anki_reshape_def offline_def)
  moreover have "console (snd (goodreads_GET sample_platform None None None offline)) = []"
    by (simp add: goodreads_GET_def env_falsy_def no_effects_def)
  ultimately show ?thesis
    using cache_control_by_path [of sample_platform None offline None None None offline]
    by simp
qed

end
